theory Spec2Isabelle
  imports Main
begin

section \<open>The pull-request auto-approver (autoapprove.py)\<close>

text \<open>
  A shallow embedding of \<^verbatim>\<open>autoapprove.py\<close>: the script lists the open pull requests
  that wait for the user's review, and approves and merges those whose title holds a
  keyword. Everything the script does to the outside goes through \<^verbatim>\<open>run_command\<close>
  (a shell command line) and through the file \<^verbatim>\<open>prs.json\<close>; both are modelled as
  an environment the functions are given, so that every theorem holds for every
  behaviour of the shell and every content of the file.

  Scope of the model.
  \<^item> A Python \<^verbatim>\<open>str\<close> is a \<^typ>\<open>string\<close> whose characters are the code points below
    256 (Latin-1); \<^verbatim>\<open>str.lower\<close> is exact on them.
  \<^item> A Python \<^verbatim>\<open>bytes\<close> value is represented by what \<^verbatim>\<open>.decode()\<close> makes of it,
    the only operation the script applies to one.
  \<^item> The values \<^verbatim>\<open>json.load\<close> returns are \<^verbatim>\<open>None\<close>, booleans, integers, strings,
    lists and dicts; JSON numbers with a fraction or an exponent (Python floats) are
    not represented.
  \<^item> Spawning the shell itself never fails: \<^verbatim>\<open>run_command\<close> always returns its triple.
\<close>

subsection \<open>Strings\<close>

text \<open>\<^verbatim>\<open>str.lower()\<close> on code points below 256: the letters A-Z and the capital
  letters of Latin-1 (192-222 but the multiplication sign 215) move up by 32.\<close>

definition lower_char :: "char \<Rightarrow> char" where
  "lower_char c =
     (let n = (of_char c :: nat) in
      if (65 \<le> n \<and> n \<le> 90) \<or> (192 \<le> n \<and> n \<le> 222 \<and> n \<noteq> 215)
      then char_of (n + 32) else c)"

definition str_lower :: "string \<Rightarrow> string" where
  "str_lower s = map lower_char s"

text \<open>\<^verbatim>\<open>t.startswith(k)\<close>, and Python's \<^verbatim>\<open>k in t\<close> on strings: \<^verbatim>\<open>k\<close> starts at some
  position of \<^verbatim>\<open>t\<close>. The search tries every position from the left.\<close>

fun startswith :: "string \<Rightarrow> string \<Rightarrow> bool" where
  "startswith t [] = True"
| "startswith [] (k # ks) = False"
| "startswith (c # cs) (k # ks) = (c = k \<and> startswith cs ks)"

fun str_contains :: "string \<Rightarrow> string \<Rightarrow> bool" where
  "str_contains [] k = (k = [])"
| "str_contains (c # cs) k = (startswith (c # cs) k \<or> str_contains cs k)"

text \<open>Decimal digits of a natural number, for \<^verbatim>\<open>str(int)\<close>.\<close>

function digits :: "nat \<Rightarrow> string" where
  "digits n = (if n < 10 then [char_of (48 + n)]
               else digits (n div 10) @ [char_of (48 + n mod 10)])"
  by pat_completeness auto
termination
  by (relation "measure (\<lambda>n. n)") auto

definition hex_digit :: "nat \<Rightarrow> char" where
  "hex_digit d = (if d < 10 then char_of (48 + d) else char_of (87 + d))"

subsection \<open>The module's constants\<close>

definition KEYWORD :: string where
  "KEYWORD = ''YOURFAVOURITEKEYWORD''"

definition APPROVAL_MESSAGE :: string where
  "APPROVAL_MESSAGE = ''lit''"

text \<open>The test of \<^verbatim>\<open>process_pull_request\<close>, line 65, before its negation:
  \<^verbatim>\<open>KEYWORD.lower() in pr_title.lower()\<close>.\<close>

definition keyword_match :: "string \<Rightarrow> bool" where
  "keyword_match pr_title = str_contains (str_lower pr_title) (str_lower KEYWORD)"

subsection \<open>Python values\<close>

datatype pyval =
    PNone
  | PBool bool
  | PInt int
  | PStr string
  | PList "pyval list"
  | PDict "(string \<times> pyval) list"

text \<open>A dict is the list of its items in insertion order; its keys are distinct, as
  those of a Python dict are.\<close>

datatype exn =
    KeyError string
  | TypeError
  | AttributeError
  | UnicodeDecodeError
  | JSONDecodeError string
  | OSError

text \<open>\<^verbatim>\<open>repr\<close> of a string: single quotes unless the string holds one and no double
  quote; the quote and the backslash are escaped, tab, newline and return are written
  as letters, and the characters that are not printable as \<^verbatim>\<open>\xNN\<close>.\<close>

definition printable :: "char \<Rightarrow> bool" where
  "printable c =
     (let n = (of_char c :: nat) in
      (32 \<le> n \<and> n < 127) \<or> (161 \<le> n \<and> n \<noteq> 173))"

definition repr_char :: "char \<Rightarrow> char \<Rightarrow> string" where
  "repr_char quote c =
     (if c = quote \<or> c = CHR 0x5C then [CHR 0x5C, c]
      else if c = CHR 0x09 then [CHR 0x5C, CHR ''t'']
      else if c = CHR 0x0A then [CHR 0x5C, CHR ''n'']
      else if c = CHR 0x0D then [CHR 0x5C, CHR ''r'']
      else if printable c then [c]
      else [CHR 0x5C, CHR ''x'',
            hex_digit ((of_char c :: nat) div 16), hex_digit ((of_char c :: nat) mod 16)])"

definition repr_str :: "string \<Rightarrow> string" where
  "repr_str s =
     (let quote = (if CHR 0x27 \<in> set s \<and> CHR 0x22 \<notin> set s then CHR 0x22 else CHR 0x27)
      in [quote] @ concat (map (repr_char quote) s) @ [quote])"

fun join :: "string \<Rightarrow> string list \<Rightarrow> string" where
  "join sep [] = []"
| "join sep [x] = x"
| "join sep (x # y # ys) = x @ sep @ join sep (y # ys)"

fun py_repr :: "pyval \<Rightarrow> string" where
  "py_repr PNone = ''None''"
| "py_repr (PBool b) = (if b then ''True'' else ''False'')"
| "py_repr (PInt i) = (if i < 0 then ''-'' @ digits (nat (- i)) else digits (nat i))"
| "py_repr (PStr s) = repr_str s"
| "py_repr (PList xs) = ''['' @ join '', '' (map py_repr xs) @ '']''"
| "py_repr (PDict kvs) =
     ''{'' @ join '', '' (map (\<lambda>kv. repr_str (fst kv) @ '': '' @ py_repr (snd kv)) kvs) @ ''}''"

text \<open>What an f-string puts for \<^verbatim>\<open>{v}\<close>: \<^verbatim>\<open>str(v)\<close>, the string itself for a string
  and the \<^verbatim>\<open>repr\<close> for the other values.\<close>

fun py_str :: "pyval \<Rightarrow> string" where
  "py_str (PStr s) = s"
| "py_str v = py_repr v"

text \<open>\<^verbatim>\<open>not v\<close> tests the truth value; \<^verbatim>\<open>for x in v\<close> iterates a list over its
  elements, a dict over its keys and a string over its characters; \<^verbatim>\<open>v[key]\<close> with a
  string key is defined on a dict that has the key.\<close>

fun truthy :: "pyval \<Rightarrow> bool" where
  "truthy PNone = False"
| "truthy (PBool b) = b"
| "truthy (PInt i) = (i \<noteq> 0)"
| "truthy (PStr s) = (s \<noteq> [])"
| "truthy (PList xs) = (xs \<noteq> [])"
| "truthy (PDict kvs) = (kvs \<noteq> [])"

fun iterate :: "pyval \<Rightarrow> exn + pyval list" where
  "iterate (PList xs) = Inr xs"
| "iterate (PDict kvs) = Inr (map (\<lambda>kv. PStr (fst kv)) kvs)"
| "iterate (PStr s) = Inr (map (\<lambda>c. PStr [c]) s)"
| "iterate v = Inl TypeError"

fun subscript :: "pyval \<Rightarrow> string \<Rightarrow> exn + pyval" where
  "subscript (PDict kvs) key =
     (case map_of kvs key of None \<Rightarrow> Inl (KeyError key) | Some v \<Rightarrow> Inr v)"
| "subscript v key = Inl TypeError"

text \<open>\<^verbatim>\<open>v.lower()\<close>: only a string has the method.\<close>

fun py_lower :: "pyval \<Rightarrow> exn + string" where
  "py_lower (PStr s) = Inr (str_lower s)"
| "py_lower v = Inl AttributeError"

subsection \<open>The outside world\<close>

text \<open>A \<^verbatim>\<open>bytes\<close> value (the captured output of a command) as \<^verbatim>\<open>.decode()\<close> sees
  it: the text it decodes to, or a byte sequence that is not valid UTF-8, on which
  \<^verbatim>\<open>.decode()\<close> raises \<^verbatim>\<open>UnicodeDecodeError\<close>.\<close>

datatype bytes = Text string | Undecodable

fun decode :: "bytes \<Rightarrow> exn + string" where
  "decode (Text s) = Inr s"
| "decode Undecodable = Inl UnicodeDecodeError"

datatype level = INFO | WARNING | ERROR

text \<open>The state of a run: the outside world (of any type \<open>'w\<close>), the command lines
  handed to the shell so far and the messages logged so far, both oldest first.\<close>

record 'w state =
  world :: 'w
  invoked :: "string list"
  logged :: "(level \<times> string) list"

text \<open>The environment: what the shell does with a command line in a world (the
  triple \<^verbatim>\<open>(returncode, stdout, stderr)\<close> and the world after it), and what
  \<^verbatim>\<open>json.load\<close> makes of the file of a given name in a world.\<close>

record 'w env =
  shell :: "string \<Rightarrow> 'w \<Rightarrow> (int \<times> bytes \<times> bytes) \<times> 'w"
  json_load :: "string \<Rightarrow> 'w \<Rightarrow> exn + pyval"

definition logging :: "level \<Rightarrow> string \<Rightarrow> 'w state \<Rightarrow> 'w state" where
  "logging lvl msg s = s\<lparr>logged := logged s @ [(lvl, msg)]\<rparr>"

subsection \<open>The script's functions\<close>

definition run_command ::
  "'w env \<Rightarrow> string \<Rightarrow> 'w state \<Rightarrow> (int \<times> bytes \<times> bytes) \<times> 'w state" where
  "run_command env command s =
     (case shell env command (world s) of
        (r, w') \<Rightarrow> (r, s\<lparr>world := w', invoked := invoked s @ [command]\<rparr>))"

definition search_command :: string where
  "search_command =
     ''gh search prs --state=open --review-requested=@me --json url,title -L 100 > prs.json''"

definition fetch_pull_requests :: "'w env \<Rightarrow> 'w state \<Rightarrow> (exn + pyval) \<times> 'w state" where
  "fetch_pull_requests env s =
     (case run_command env search_command s of
        ((returncode, out, stderr), s1) \<Rightarrow>
          if returncode \<noteq> 0 then
            (case decode stderr of
               Inl e \<Rightarrow> (Inl e, s1)
             | Inr msg \<Rightarrow>
                 (Inr (PList []), logging ERROR (''Failed to search PRs: '' @ msg) s1))
          else
            (case json_load env ''prs.json'' (world s1) of
               Inr v \<Rightarrow> (Inr v, s1)
             | Inl (JSONDecodeError e) \<Rightarrow>
                 (Inr (PList []), logging ERROR (''Failed to parse JSON: '' @ e) s1)
             | Inl e \<Rightarrow> (Inl e, s1)))"

definition approve_command :: "pyval \<Rightarrow> string" where
  "approve_command repo_url =
     ''gh pr review '' @ py_str repo_url @ '' --approve -b '' @ [CHR 0x22] @ APPROVAL_MESSAGE
       @ [CHR 0x22]"

definition merge_command :: "pyval \<Rightarrow> string" where
  "merge_command repo_url =
     ''gh pr merge '' @ py_str repo_url @ '' --squash --auto --merge --delete-branch -A email''"

definition process_pull_request ::
  "'w env \<Rightarrow> pyval \<Rightarrow> 'w state \<Rightarrow> (exn + unit) \<times> 'w state" where
  "process_pull_request env pr s =
     (case subscript pr ''title'' of
        Inl e \<Rightarrow> (Inl e, s)
      | Inr pr_title \<Rightarrow>
     (case subscript pr ''url'' of
        Inl e \<Rightarrow> (Inl e, s)
      | Inr repo_url \<Rightarrow>
     (case py_lower pr_title of
        Inl e \<Rightarrow> (Inl e, s)
      | Inr lowered \<Rightarrow>
          if \<not> str_contains lowered (str_lower KEYWORD) then
            (Inr (), logging INFO
               (''Skipping PR '' @ [CHR 0x22] @ py_str pr_title @ [CHR 0x22]
                  @ '' - no keyword match'') s)
          else
            (case run_command env (approve_command repo_url) s of
               ((returncode, out, stderr), s1) \<Rightarrow>
                 if returncode \<noteq> 0 then
                   (case decode stderr of
                      Inl e \<Rightarrow> (Inl e, s1)
                    | Inr msg \<Rightarrow>
                        (Inr (), logging ERROR
                           (''Failed to approve PR '' @ py_str repo_url @ '': '' @ msg) s1))
                 else
                   (case run_command env (merge_command repo_url)
                           (logging INFO (''Successfully approved PR: '' @ py_str repo_url) s1) of
                      ((returncode, out, stderr), s3) \<Rightarrow>
                        if returncode = 0 then
                          (Inr (), logging INFO
                             (''Successfully merged PR: '' @ py_str repo_url) s3)
                        else
                          (case decode stderr of
                             Inl e \<Rightarrow> (Inl e, s3)
                           | Inr msg \<Rightarrow>
                               (Inr (), logging ERROR
                                  (''Failed to merge PR '' @ py_str repo_url @ '': '' @ msg)
                                  s3)))))))"

text \<open>The loop of \<^verbatim>\<open>main\<close>, lines 96-97: an exception raised for one element ends
  the loop, as it ends the program.\<close>

fun for_each :: "'w env \<Rightarrow> pyval list \<Rightarrow> 'w state \<Rightarrow> (exn + unit) \<times> 'w state" where
  "for_each env [] s = (Inr (), s)"
| "for_each env (pr # prs) s =
     (case process_pull_request env pr s of
        (Inl e, s') \<Rightarrow> (Inl e, s')
      | (Inr u, s') \<Rightarrow> for_each env prs s')"

definition main :: "'w env \<Rightarrow> 'w state \<Rightarrow> (exn + unit) \<times> 'w state" where
  "main env s =
     (case fetch_pull_requests env s of
        (Inl e, s1) \<Rightarrow> (Inl e, s1)
      | (Inr pull_requests, s1) \<Rightarrow>
          if \<not> truthy pull_requests then
            (Inr (), logging WARNING ''No pull requests found'' s1)
          else
            (case iterate pull_requests of
               Inl e \<Rightarrow> (Inl e, s1)
             | Inr prs \<Rightarrow> for_each env prs s1))"

subsection \<open>Reading a run\<close>

text \<open>A merge invocation is a command line that starts with \<^verbatim>\<open>gh pr merge\<close>; the
  approve command starts with \<^verbatim>\<open>gh pr review\<close>.\<close>

definition is_merge :: "string \<Rightarrow> bool" where
  "is_merge command = startswith command ''gh pr merge ''"

text \<open>The words of a command line that spaces separate.\<close>

fun split_acc :: "string \<Rightarrow> string \<Rightarrow> string list" where
  "split_acc cur [] = (if cur = [] then [] else [cur])"
| "split_acc cur (c # cs) =
     (if c = CHR '' '' then (if cur = [] then [] else [cur]) @ split_acc [] cs
      else split_acc (cur @ [c]) cs)"

definition split :: "string \<Rightarrow> string list" where
  "split command = split_acc [] command"

text \<open>A concrete world for examples: the results the shell will give to the next
  invocations, in order (a command past the end of the list succeeds with no output),
  and what \<^verbatim>\<open>json.load\<close> makes of \<^verbatim>\<open>prs.json\<close>; another file does not exist.\<close>

type_synonym script = "(int \<times> bytes \<times> bytes) list \<times> (exn + pyval)"

definition script_env :: "script env" where
  "script_env =
     \<lparr>shell = (\<lambda>command w.
        (case fst w of
           [] \<Rightarrow> ((0, Text [], Text []), w)
         | r # rs \<Rightarrow> (r, (rs, snd w)))),
      json_load = (\<lambda>name w. if name = ''prs.json'' then snd w else Inl OSError)\<rparr>"

definition start :: "'w \<Rightarrow> 'w state" where
  "start w = \<lparr>world = w, invoked = [], logged = []\<rparr>"

text \<open>The command lines a step handed to the shell: those in the later state that
  the earlier state does not have yet.\<close>

definition new_invocations :: "'w state \<Rightarrow> 'w state \<Rightarrow> string list" where
  "new_invocations s s' = drop (length (invoked s)) (invoked s')"

text \<open>A well-formed record: a dict with a string under \<^verbatim>\<open>title\<close> and a value under
  \<^verbatim>\<open>url\<close>, as \<^verbatim>\<open>--json url,title\<close> asks the client for.\<close>

fun is_title :: "exn + pyval \<Rightarrow> bool" where
  "is_title (Inr (PStr t)) = True"
| "is_title v = False"

fun is_value :: "exn + pyval \<Rightarrow> bool" where
  "is_value (Inr v) = True"
| "is_value (Inl e) = False"

definition is_record :: "pyval \<Rightarrow> bool" where
  "is_record pr = (is_title (subscript pr ''title'') \<and> is_value (subscript pr ''url''))"

text \<open>What the loop leaves behind for a record it has attempted: the skip notice of
  its title, or its approve invocation.\<close>

definition skip_notice :: "string \<Rightarrow> level \<times> string" where
  "skip_notice t =
     (INFO, ''Skipping PR '' @ [CHR 0x22] @ t @ [CHR 0x22] @ '' - no keyword match'')"


text \<open>For examples: a record as the client writes it, and a second concrete world
  whose commands only ever print text: the return codes and error texts of the next
  invocations, and the parsed content of \<^verbatim>\<open>prs.json\<close>.\<close>

definition mk_record :: "string \<Rightarrow> string \<Rightarrow> pyval" where
  "mk_record title url = PDict [(''title'', PStr title), (''url'', PStr url)]"



section \<open>Properties\<close>

subsection \<open>Substring search\<close>




lemma lower_keyword: "str_lower KEYWORD = ''yourfavouritekeyword''"
  by code_simp

subsection \<open>The steps of a run\<close>

lemma invoked_logging: "invoked (logging lvl msg s) = invoked s"
  by (simp add: logging_def)

lemma new_invocations_append:
  "invoked s' = invoked s @ cs \<Longrightarrow> new_invocations s s' = cs"
  by (simp add: new_invocations_def)

lemma run_command_eq:
  "shell env c (world s) = (r, w') \<Longrightarrow>
   run_command env c s = (r, s\<lparr>world := w', invoked := invoked s @ [c]\<rparr>)"
  by (simp add: run_command_def)

lemma not_merge_approve: "\<not> is_merge (approve_command u)"
  by (simp add: is_merge_def approve_command_def)

lemma is_merge_merge: "is_merge (merge_command u)"
  by (simp add: is_merge_def merge_command_def)

text \<open>The three ways through \<^verbatim>\<open>process_pull_request\<close> for a record with a string
  title and a url.\<close>

lemma process_skip:
  assumes "subscript pr ''title'' = Inr (PStr t)" and "subscript pr ''url'' = Inr u"
    and "\<not> keyword_match t"
  shows "process_pull_request env pr s = (Inr (), s\<lparr>logged := logged s @ [skip_notice t]\<rparr>)"
  using assms
  by (simp add: process_pull_request_def keyword_match_def skip_notice_def logging_def)

lemma process_approve_failed:
  assumes "subscript pr ''title'' = Inr (PStr t)" and "subscript pr ''url'' = Inr u"
    and "keyword_match t"
    and "shell env (approve_command u) (world s) = ((rc, out, err), w1)" and "rc \<noteq> 0"
  shows "process_pull_request env pr s =
     (case decode err of
        Inl e \<Rightarrow> (Inl e, s\<lparr>world := w1, invoked := invoked s @ [approve_command u]\<rparr>)
      | Inr msg \<Rightarrow>
          (Inr (), logging ERROR (''Failed to approve PR '' @ py_str u @ '': '' @ msg)
             (s\<lparr>world := w1, invoked := invoked s @ [approve_command u]\<rparr>)))"
  using assms by (simp add: process_pull_request_def keyword_match_def run_command_eq)

lemma process_approved:
  assumes "subscript pr ''title'' = Inr (PStr t)" and "subscript pr ''url'' = Inr u"
    and "keyword_match t"
    and "shell env (approve_command u) (world s) = ((0, out, err), w1)"
    and "shell env (merge_command u) w1 = ((rc2, out2, err2), w2)"
  shows "process_pull_request env pr s =
     (let s3 = \<lparr>world = w2, invoked = invoked s @ [approve_command u, merge_command u],
                logged = logged s @ [(INFO, ''Successfully approved PR: '' @ py_str u)]\<rparr>
      in if rc2 = 0 then (Inr (), logging INFO (''Successfully merged PR: '' @ py_str u) s3)
         else (case decode err2 of
                 Inl e \<Rightarrow> (Inl e, s3)
               | Inr msg \<Rightarrow>
                   (Inr (), logging ERROR
                      (''Failed to merge PR '' @ py_str u @ '': '' @ msg) s3)))"
  using assms
  by (simp add: process_pull_request_def keyword_match_def run_command_def logging_def Let_def
      split: sum.splits)

lemma invoked_approve_failed:
  assumes "subscript pr ''title'' = Inr (PStr t)" and "subscript pr ''url'' = Inr u"
    and "keyword_match t"
    and "shell env (approve_command u) (world s) = ((rc, out, err), w1)" and "rc \<noteq> 0"
  shows "invoked (snd (process_pull_request env pr s)) = invoked s @ [approve_command u]"
  using process_approve_failed [OF assms]
  by (simp add: invoked_logging split: sum.splits)

lemma invoked_approved:
  assumes "subscript pr ''title'' = Inr (PStr t)" and "subscript pr ''url'' = Inr u"
    and "keyword_match t"
    and "shell env (approve_command u) (world s) = ((0, out, err), w1)"
  shows "invoked (snd (process_pull_request env pr s)) =
         invoked s @ [approve_command u, merge_command u]"
proof -
  obtain rc2 out2 err2 w2 where
    m: "shell env (merge_command u) w1 = ((rc2, out2, err2), w2)"
    by (metis prod_cases3 surj_pair)
  show ?thesis
    using process_approved [OF assms m]
    by (simp add: invoked_logging Let_def split: sum.splits)
qed

subsection \<open>The keyword match\<close>



subsection \<open>One record\<close>

text \<open>
  Claim C2. For every record whose title matches the keyword and whose approve
  invocation returns a non-zero code, the approve command is the only command run for
  the record: no merge invocation is among the commands of that record.
\<close>

theorem approve_failure_blocks_merge:
  assumes "subscript pr ''title'' = Inr (PStr t)" and "subscript pr ''url'' = Inr u"
    and "keyword_match t"
    and "shell env (approve_command u) (world s) = ((rc, out, err), w1)" and "rc \<noteq> 0"
  shows "new_invocations s (snd (process_pull_request env pr s)) = [approve_command u]
         \<and> filter is_merge (new_invocations s (snd (process_pull_request env pr s))) = []"
proof -
  have "new_invocations s (snd (process_pull_request env pr s)) = [approve_command u]"
    using invoked_approve_failed [OF assms] by (rule new_invocations_append)
  then show ?thesis by (simp add: not_merge_approve)
qed

theorem approve_failure_blocks_merge_witness:
  "subscript (mk_record ''Add YOURFAVOURITEKEYWORD support'' ''u2'') ''title''
     = Inr (PStr ''Add YOURFAVOURITEKEYWORD support'')
   \<and> subscript (mk_record ''Add YOURFAVOURITEKEYWORD support'' ''u2'') ''url''
     = Inr (PStr ''u2'')
   \<and> keyword_match ''Add YOURFAVOURITEKEYWORD support''
   \<and> shell script_env (approve_command (PStr ''u2''))
        (world (start ([(1, Text [], Text ''denied'')], Inr PNone)))
      = ((1, Text [], Text ''denied''), ([], Inr PNone))
   \<and> (1::int) \<noteq> 0
   \<and> new_invocations (start ([(1, Text [], Text ''denied'')], Inr PNone))
        (snd (process_pull_request script_env
               (mk_record ''Add YOURFAVOURITEKEYWORD support'' ''u2'')
               (start ([(1, Text [], Text ''denied'')], Inr PNone))))
      = [''gh pr review u2 --approve -b '' @ [CHR 0x22] @ ''lit'' @ [CHR 0x22]]"
proof -
  let ?pr = "mk_record ''Add YOURFAVOURITEKEYWORD support'' ''u2''"
  let ?s = "start ([(1, Text [], Text ''denied'')], Inr PNone)"
  have h1: "subscript ?pr ''title'' = Inr (PStr ''Add YOURFAVOURITEKEYWORD support'')"
    by (simp add: mk_record_def)
  have h2: "subscript ?pr ''url'' = Inr (PStr ''u2'')"
    by (simp add: mk_record_def)
  have h3: "keyword_match ''Add YOURFAVOURITEKEYWORD support''"
    by code_simp
  have h4: "shell script_env (approve_command (PStr ''u2'')) (world ?s)
      = ((1, Text [], Text ''denied''), ([], Inr PNone))"
    by (simp add: script_env_def start_def)
  have h5: "(1::int) \<noteq> 0" by simp
  have c: "approve_command (PStr ''u2'')
      = ''gh pr review u2 --approve -b '' @ [CHR 0x22] @ ''lit'' @ [CHR 0x22]"
    by (simp add: approve_command_def APPROVAL_MESSAGE_def)
  show ?thesis
    using approve_failure_blocks_merge [OF h1 h2 h3 h4 h5] h1 h2 h3 h4 c by simp
qed

text \<open>
  Claim C4. For every record whose title matches the keyword and whose approve
  invocation returns zero, the commands run for the record are the approve command and
  then the merge command: exactly one of them is a merge invocation. Nothing is assumed
  of what the merge invocation returns.
\<close>

theorem approval_then_one_merge:
  assumes "subscript pr ''title'' = Inr (PStr t)" and "subscript pr ''url'' = Inr u"
    and "keyword_match t"
    and "shell env (approve_command u) (world s) = ((0, out, err), w1)"
  shows "new_invocations s (snd (process_pull_request env pr s))
           = [approve_command u, merge_command u]
         \<and> filter is_merge (new_invocations s (snd (process_pull_request env pr s)))
           = [merge_command u]"
proof -
  have "new_invocations s (snd (process_pull_request env pr s))
          = [approve_command u, merge_command u]"
    using invoked_approved [OF assms] by (rule new_invocations_append)
  then show ?thesis by (simp add: not_merge_approve is_merge_merge)
qed

theorem approval_then_one_merge_witness:
  "subscript (mk_record ''Add YOURFAVOURITEKEYWORD support'' ''u2'') ''title''
     = Inr (PStr ''Add YOURFAVOURITEKEYWORD support'')
   \<and> subscript (mk_record ''Add YOURFAVOURITEKEYWORD support'' ''u2'') ''url''
     = Inr (PStr ''u2'')
   \<and> keyword_match ''Add YOURFAVOURITEKEYWORD support''
   \<and> shell script_env (approve_command (PStr ''u2''))
        (world (start ([(0, Text [], Text []), (1, Text [], Text ''conflict'')], Inr PNone)))
      = ((0, Text [], Text []), ([(1, Text [], Text ''conflict'')], Inr PNone))
   \<and> filter is_merge
        (new_invocations
           (start ([(0, Text [], Text []), (1, Text [], Text ''conflict'')], Inr PNone))
           (snd (process_pull_request script_env
                  (mk_record ''Add YOURFAVOURITEKEYWORD support'' ''u2'')
                  (start ([(0, Text [], Text []), (1, Text [], Text ''conflict'')],
                          Inr PNone)))))
      = [''gh pr merge u2 --squash --auto --merge --delete-branch -A email'']"
proof -
  let ?pr = "mk_record ''Add YOURFAVOURITEKEYWORD support'' ''u2''"
  let ?s = "start ([(0, Text [], Text []), (1, Text [], Text ''conflict'')], Inr PNone)"
  have h1: "subscript ?pr ''title'' = Inr (PStr ''Add YOURFAVOURITEKEYWORD support'')"
    by (simp add: mk_record_def)
  have h2: "subscript ?pr ''url'' = Inr (PStr ''u2'')"
    by (simp add: mk_record_def)
  have h3: "keyword_match ''Add YOURFAVOURITEKEYWORD support''"
    by code_simp
  have h4: "shell script_env (approve_command (PStr ''u2'')) (world ?s)
      = ((0, Text [], Text []), ([(1, Text [], Text ''conflict'')], Inr PNone))"
    by (simp add: script_env_def start_def)
  have c: "merge_command (PStr ''u2'')
      = ''gh pr merge u2 --squash --auto --merge --delete-branch -A email''"
    by (simp add: merge_command_def)
  have r: "filter is_merge (new_invocations ?s (snd (process_pull_request script_env ?pr ?s)))
      = [merge_command (PStr ''u2'')]"
    using approval_then_one_merge [OF h1 h2 h3 h4] by (rule conjunct2)
  show ?thesis
    by (intro conjI h1 h2 h3 h4 r [unfolded c])
qed

text \<open>
  Claim C5. For every record whose title does not match the keyword, the step returns
  normally having run no command (neither approve nor merge) and having logged, at level
  INFO, the skip notice that names the title; the loop then goes on with the records
  that follow.
\<close>

theorem no_match_skips:
  assumes "subscript pr ''title'' = Inr (PStr t)" and "subscript pr ''url'' = Inr u"
    and "\<not> keyword_match t"
  shows "process_pull_request env pr s =
           (Inr (), s\<lparr>logged := logged s @
              [(INFO, ''Skipping PR '' @ [CHR 0x22] @ t @ [CHR 0x22]
                        @ '' - no keyword match'')]\<rparr>)
         \<and> new_invocations s (snd (process_pull_request env pr s)) = []
         \<and> for_each env (pr # prs) s =
             for_each env prs (s\<lparr>logged := logged s @
               [(INFO, ''Skipping PR '' @ [CHR 0x22] @ t @ [CHR 0x22]
                         @ '' - no keyword match'')]\<rparr>)"
  using process_skip [OF assms, of env s]
  by (simp add: skip_notice_def new_invocations_def)

theorem no_match_skips_witness:
  "subscript (mk_record ''Fix bug'' ''u1'') ''title'' = Inr (PStr ''Fix bug'')
   \<and> subscript (mk_record ''Fix bug'' ''u1'') ''url'' = Inr (PStr ''u1'')
   \<and> \<not> keyword_match ''Fix bug''
   \<and> process_pull_request script_env (mk_record ''Fix bug'' ''u1'') (start ([], Inr PNone))
     = (Inr (), \<lparr>world = ([], Inr PNone), invoked = [],
                 logged = [(INFO, ''Skipping PR '' @ [CHR 0x22] @ ''Fix bug'' @ [CHR 0x22]
                                    @ '' - no keyword match'')]\<rparr>)"
proof -
  have h1: "subscript (mk_record ''Fix bug'' ''u1'') ''title'' = Inr (PStr ''Fix bug'')"
    by (simp add: mk_record_def)
  have h2: "subscript (mk_record ''Fix bug'' ''u1'') ''url'' = Inr (PStr ''u1'')"
    by (simp add: mk_record_def)
  have h3: "\<not> keyword_match ''Fix bug''"
    by code_simp
  show ?thesis
    using no_match_skips [OF h1 h2 h3, of script_env "start ([], Inr PNone)"] h1 h2 h3
    by (simp add: start_def)
qed

subsection \<open>The merge request\<close>

lemma split_acc_space:
  "split_acc cur (a @ CHR '' '' # b) = split_acc cur a @ split_acc [] b"
  by (induction a arbitrary: cur) auto

lemma merge_flags:
  "split_acc [] ''--squash --auto --merge --delete-branch -A email''
     = [''--squash'', ''--auto'', ''--merge'', ''--delete-branch'', ''-A'', ''email'']"
  by simp

lemma split_merge_command:
  "split (merge_command u) = split (''gh pr merge '' @ py_str u)
     @ [''--squash'', ''--auto'', ''--merge'', ''--delete-branch'', ''-A'', ''email'']"
proof -
  have "merge_command u = (''gh pr merge '' @ py_str u) @ CHR '' '' #
      ''--squash --auto --merge --delete-branch -A email''"
    by (simp add: merge_command_def)
  then show ?thesis
    unfolding split_def by (simp only: split_acc_space merge_flags)
qed

text \<open>
  Claim C9. For every record that reaches the merge step (its title matches and its
  approve invocation returned zero), one merge invocation is made, and its command line
  is \<^verbatim>\<open>gh pr merge\<close>, the url, and then in this one command the words
  \<^verbatim>\<open>--squash\<close> (the squash strategy), \<^verbatim>\<open>--auto\<close> (auto-merge), \<^verbatim>\<open>--merge\<close>,
  \<^verbatim>\<open>--delete-branch\<close> (deletion of the source branch) and \<^verbatim>\<open>-A email\<close> (the
  attribution field), whatever the url is.
\<close>

theorem merge_request_shape:
  assumes "subscript pr ''title'' = Inr (PStr t)" and "subscript pr ''url'' = Inr u"
    and "keyword_match t"
    and "shell env (approve_command u) (world s) = ((0, out, err), w1)"
  shows "filter is_merge (new_invocations s (snd (process_pull_request env pr s)))
           = [''gh pr merge '' @ py_str u
                @ '' --squash --auto --merge --delete-branch -A email'']
         \<and> split (''gh pr merge '' @ py_str u
                     @ '' --squash --auto --merge --delete-branch -A email'')
           = split (''gh pr merge '' @ py_str u)
               @ [''--squash'', ''--auto'', ''--merge'', ''--delete-branch'', ''-A'', ''email'']"
proof -
  have "new_invocations s (snd (process_pull_request env pr s))
          = [approve_command u, merge_command u]"
    using invoked_approved [OF assms] by (rule new_invocations_append)
  then have "filter is_merge (new_invocations s (snd (process_pull_request env pr s)))
          = [merge_command u]"
    by (simp add: not_merge_approve is_merge_merge)
  then show ?thesis
    using split_merge_command [of u] by (simp add: merge_command_def)
qed

theorem merge_request_shape_witness:
  "subscript (mk_record ''yourfavouritekeyword: bump'' ''https://example.org/pull/7'') ''title''
     = Inr (PStr ''yourfavouritekeyword: bump'')
   \<and> subscript (mk_record ''yourfavouritekeyword: bump'' ''https://example.org/pull/7'') ''url''
     = Inr (PStr ''https://example.org/pull/7'')
   \<and> keyword_match ''yourfavouritekeyword: bump''
   \<and> shell script_env (approve_command (PStr ''https://example.org/pull/7''))
        (world (start ([], Inr PNone)))
      = ((0, Text [], Text []), ([], Inr PNone))
   \<and> filter is_merge
        (new_invocations (start ([], Inr PNone))
           (snd (process_pull_request script_env
                  (mk_record ''yourfavouritekeyword: bump'' ''https://example.org/pull/7'')
                  (start ([], Inr PNone)))))
      = [''gh pr merge https://example.org/pull/7 --squash --auto --merge --delete-branch -A email'']"
proof -
  let ?pr = "mk_record ''yourfavouritekeyword: bump'' ''https://example.org/pull/7''"
  let ?s = "start ([], Inr PNone) :: script state"
  have h1: "subscript ?pr ''title'' = Inr (PStr ''yourfavouritekeyword: bump'')"
    by (simp add: mk_record_def)
  have h2: "subscript ?pr ''url'' = Inr (PStr ''https://example.org/pull/7'')"
    by (simp add: mk_record_def)
  have h3: "keyword_match ''yourfavouritekeyword: bump''"
    by code_simp
  have h4: "shell script_env (approve_command (PStr ''https://example.org/pull/7'')) (world ?s)
      = ((0, Text [], Text []), ([], Inr PNone))"
    by (simp add: script_env_def start_def)
  have r: "filter is_merge (new_invocations ?s (snd (process_pull_request script_env ?pr ?s)))
      = [''gh pr merge '' @ py_str (PStr ''https://example.org/pull/7'')
           @ '' --squash --auto --merge --delete-branch -A email'']"
    using merge_request_shape [OF h1 h2 h3 h4] by (rule conjunct1)
  have c: "''gh pr merge '' @ py_str (PStr ''https://example.org/pull/7'')
             @ '' --squash --auto --merge --delete-branch -A email''
      = ''gh pr merge https://example.org/pull/7 --squash --auto --merge --delete-branch -A email''"
    by simp
  show ?thesis
    by (intro conjI h1 h2 h3 h4 r [unfolded c])
qed

subsection \<open>The title and the commands\<close>

text \<open>
  Claim C10. For any two records with the same url whose titles both match the
  keyword, the step does the same from the same state: the same commands with the same
  result. From any two states, in any two worlds, the commands run for either record are
  the approve command of the url alone, or the approve and the merge command of the url;
  both command lines are functions of the url only, so the title is in no command.
\<close>

theorem commands_independent_of_title:
  assumes "subscript pr1 ''title'' = Inr (PStr t1)" and "subscript pr1 ''url'' = Inr u"
    and "subscript pr2 ''title'' = Inr (PStr t2)" and "subscript pr2 ''url'' = Inr u"
    and "keyword_match t1" and "keyword_match t2"
  shows "process_pull_request env pr1 s = process_pull_request env pr2 s
         \<and> new_invocations s1 (snd (process_pull_request env1 pr1 s1))
             \<in> {[approve_command u], [approve_command u, merge_command u]}
         \<and> new_invocations s2 (snd (process_pull_request env2 pr2 s2))
             \<in> {[approve_command u], [approve_command u, merge_command u]}"
proof -
  have one: "new_invocations s' (snd (process_pull_request env' pr s'))
      \<in> {[approve_command u], [approve_command u, merge_command u]}"
    if "subscript pr ''title'' = Inr (PStr t)" and "subscript pr ''url'' = Inr u"
      and "keyword_match t" for pr t and env' :: "'x env" and s'
  proof -
    obtain rc out err w1 where
      a: "shell env' (approve_command u) (world s') = ((rc, out, err), w1)"
      by (metis prod_cases3 surj_pair)
    show ?thesis
    proof (cases "rc = 0")
      case True
      with a that have "invoked (snd (process_pull_request env' pr s'))
          = invoked s' @ [approve_command u, merge_command u]"
        by (simp add: invoked_approved)
      then show ?thesis by (simp add: new_invocations_def)
    next
      case False
      with a that have "invoked (snd (process_pull_request env' pr s'))
          = invoked s' @ [approve_command u]"
        by (simp add: invoked_approve_failed)
      then show ?thesis by (simp add: new_invocations_def)
    qed
  qed
  have same: "process_pull_request env pr1 s = process_pull_request env pr2 s"
    using assms by (simp add: process_pull_request_def keyword_match_def)
  show ?thesis
    using same one [OF assms(1,2,5)] one [OF assms(3,4,6)] by blast
qed

theorem commands_independent_of_title_witness:
  "subscript (mk_record ''YOURFAVOURITEKEYWORD'' ''u2'') ''url''
     = subscript (mk_record ''add yourfavouritekeyword; rm -rf'' ''u2'') ''url''
   \<and> keyword_match ''YOURFAVOURITEKEYWORD''
   \<and> keyword_match ''add yourfavouritekeyword; rm -rf''
   \<and> process_pull_request script_env (mk_record ''YOURFAVOURITEKEYWORD'' ''u2'')
        (start ([], Inr PNone))
     = process_pull_request script_env (mk_record ''add yourfavouritekeyword; rm -rf'' ''u2'')
        (start ([], Inr PNone))"
proof -
  let ?pr1 = "mk_record ''YOURFAVOURITEKEYWORD'' ''u2''"
  let ?pr2 = "mk_record ''add yourfavouritekeyword; rm -rf'' ''u2''"
  have a1: "subscript ?pr1 ''title'' = Inr (PStr ''YOURFAVOURITEKEYWORD'')"
    by (simp add: mk_record_def)
  have a2: "subscript ?pr1 ''url'' = Inr (PStr ''u2'')"
    by (simp add: mk_record_def)
  have b1: "subscript ?pr2 ''title'' = Inr (PStr ''add yourfavouritekeyword; rm -rf'')"
    by (simp add: mk_record_def)
  have b2: "subscript ?pr2 ''url'' = Inr (PStr ''u2'')"
    by (simp add: mk_record_def)
  have m1: "keyword_match ''YOURFAVOURITEKEYWORD''"
    by code_simp
  have m2: "keyword_match ''add yourfavouritekeyword; rm -rf''"
    by code_simp
  have r: "process_pull_request script_env ?pr1 (start ([], Inr PNone))
      = process_pull_request script_env ?pr2 (start ([], Inr PNone))"
    using commands_independent_of_title [OF a1 a2 b1 b2 m1 m2] by (rule conjunct1)
  have u: "subscript ?pr1 ''url'' = subscript ?pr2 ''url''"
    using a2 b2 by simp
  show ?thesis
    by (intro conjI u m1 m2 r)
qed

subsection \<open>The fetch step\<close>

lemma invoked_fetch:
  "invoked (snd (fetch_pull_requests env s)) = invoked s @ [search_command]"
proof -
  obtain rc out err w1 where
    a: "shell env search_command (world s) = ((rc, out, err), w1)"
    by (metis prod_cases3 surj_pair)
  have run: "run_command env search_command s
      = ((rc, out, err), s\<lparr>world := w1, invoked := invoked s @ [search_command]\<rparr>)"
    using a by (rule run_command_eq)
  show ?thesis
    using run
    by (auto simp: fetch_pull_requests_def invoked_logging split: sum.splits exn.splits)
qed

lemma split_search:
  "split search_command =
     [''gh'', ''search'', ''prs'', ''--state=open'', ''--review-requested=@me'', ''--json'',
      ''url,title'', ''-L'', ''100'', ''>'', ''prs.json'']"
  by (simp add: split_def search_command_def)

text \<open>
  Claim C8 says that the search request holds the cap of 100, so the fetched sequence
  has at most 100 records. The request does hold the cap, but the fetch step returns
  what the artifact holds and cuts nothing: from an artifact of 101 records it returns
  101 records.
\<close>

theorem fetch_returns_101_records:
  "fst (fetch_pull_requests script_env
          (start ([], Inr (PList (replicate 101 (mk_record ''Fix bug'' ''u1''))))))
     = Inr (PList (replicate 101 (mk_record ''Fix bug'' ''u1'')))
   \<and> length (replicate 101 (mk_record ''Fix bug'' ''u1'')) = 101
   \<and> is_record (mk_record ''Fix bug'' ''u1'')"
  by (simp add: fetch_pull_requests_def run_command_def script_env_def start_def
      is_record_def mk_record_def)

text \<open>
  Claim C8, amended. For every run, the fetch step hands the shell exactly one command,
  the search request, whose words include the result-size cap \<^verbatim>\<open>-L 100\<close>; when the
  search returns zero and the artifact parses, the fetch step returns the parsed value
  as it is, with the same records in the same order and none dropped. The bound of 100
  is therefore the external client's: the sequence has at most 100 records whenever the
  client has written at most 100.
\<close>

theorem fetch_returns_artifact:
  "new_invocations s (snd (fetch_pull_requests env s)) = [search_command]
   \<and> split search_command =
       [''gh'', ''search'', ''prs'', ''--state=open'', ''--review-requested=@me'', ''--json'',
        ''url,title'', ''-L'', ''100'', ''>'', ''prs.json'']
   \<and> (\<forall>out err w1 v.
         shell env search_command (world s) = ((0, out, err), w1)
         \<and> json_load env ''prs.json'' w1 = Inr v
         \<longrightarrow> fst (fetch_pull_requests env s) = Inr v)"
proof (intro conjI allI impI)
  show "new_invocations s (snd (fetch_pull_requests env s)) = [search_command]"
    using invoked_fetch by (rule new_invocations_append)
  show "split search_command =
       [''gh'', ''search'', ''prs'', ''--state=open'', ''--review-requested=@me'', ''--json'',
        ''url,title'', ''-L'', ''100'', ''>'', ''prs.json'']"
    by (rule split_search)
  show "fst (fetch_pull_requests env s) = Inr v"
    if "shell env search_command (world s) = ((0, out, err), w1)
         \<and> json_load env ''prs.json'' w1 = Inr v" for out err w1 v
    using that by (simp add: fetch_pull_requests_def run_command_def)
qed

theorem fetch_returns_artifact_witness:
  "shell script_env search_command
     (world (start ([], Inr (PList [mk_record ''Fix bug'' ''u1'', PInt 7]))))
     = ((0, Text [], Text []), ([], Inr (PList [mk_record ''Fix bug'' ''u1'', PInt 7])))
   \<and> json_load script_env ''prs.json'' ([], Inr (PList [mk_record ''Fix bug'' ''u1'', PInt 7]))
     = Inr (PList [mk_record ''Fix bug'' ''u1'', PInt 7])
   \<and> fst (fetch_pull_requests script_env
            (start ([], Inr (PList [mk_record ''Fix bug'' ''u1'', PInt 7]))))
     = Inr (PList [mk_record ''Fix bug'' ''u1'', PInt 7])"
proof -
  let ?v = "PList [mk_record ''Fix bug'' ''u1'', PInt 7]"
  have h1: "shell script_env search_command (world (start ([], Inr ?v)))
      = ((0, Text [], Text []), ([], Inr ?v))"
    by (simp add: script_env_def start_def)
  have h2: "json_load script_env ''prs.json'' ([], Inr ?v) = Inr ?v"
    by (simp add: script_env_def)
  have r: "fst (fetch_pull_requests script_env (start ([], Inr ?v))) = Inr ?v"
    using fetch_returns_artifact [of "start ([], Inr ?v)" script_env] h1 h2 by blast
  show ?thesis
    by (intro conjI h1 h2 r)
qed

text \<open>
  Claim C3 says that a run whose fetch output is not well-formed JSON runs no approve
  and no merge command, and that the fetch step then returns an empty sequence after
  logging, without aborting. Here the search command returns 1, has left an artifact
  that is not JSON, and has written an error output that is not valid UTF-8. The fetch
  step raises \<^verbatim>\<open>UnicodeDecodeError\<close> while it builds its log message: it returns no
  sequence and logs nothing, and \<^verbatim>\<open>main\<close> ends with the exception. The search command
  is the only command run.
\<close>

theorem fetch_aborts_on_undecodable_stderr:
  "fetch_pull_requests script_env
     (start ([(1, Text [], Undecodable)],
             Inl (JSONDecodeError ''Expecting value: line 1 column 1 (char 0)'')))
   = (Inl UnicodeDecodeError,
      \<lparr>world = ([], Inl (JSONDecodeError ''Expecting value: line 1 column 1 (char 0)'')),
       invoked = [search_command], logged = []\<rparr>)
   \<and> main script_env
     (start ([(1, Text [], Undecodable)],
             Inl (JSONDecodeError ''Expecting value: line 1 column 1 (char 0)'')))
   = (Inl UnicodeDecodeError,
      \<lparr>world = ([], Inl (JSONDecodeError ''Expecting value: line 1 column 1 (char 0)'')),
       invoked = [search_command], logged = []\<rparr>)"
  by (simp add: main_def fetch_pull_requests_def run_command_def script_env_def start_def)

text \<open>What the fetch step does with a failure it recovers from: the non-zero return code
  of the search whose error output decodes, and the artifact that is not JSON.\<close>

lemma fetch_search_failed:
  assumes "shell env search_command (world s) = ((rc, out, Text msg), w1)" and "rc \<noteq> 0"
  shows "fetch_pull_requests env s =
     (Inr (PList []),
      \<lparr>world = w1, invoked = invoked s @ [search_command],
       logged = logged s @ [(ERROR, ''Failed to search PRs: '' @ msg)]\<rparr>)"
  using assms by (simp add: fetch_pull_requests_def run_command_def logging_def)

lemma fetch_parse_failed:
  assumes "shell env search_command (world s) = ((0, out, err), w1)"
    and "json_load env ''prs.json'' w1 = Inl (JSONDecodeError m)"
  shows "fetch_pull_requests env s =
     (Inr (PList []),
      \<lparr>world = w1, invoked = invoked s @ [search_command],
       logged = logged s @ [(ERROR, ''Failed to parse JSON: '' @ m)]\<rparr>)"
  using assms by (simp add: fetch_pull_requests_def run_command_def logging_def)

lemma main_nothing_fetched:
  assumes "fetch_pull_requests env s = (Inr v, s1)" and "\<not> truthy v"
  shows "main env s = (Inr (), s1\<lparr>logged := logged s1 @ [(WARNING, ''No pull requests found'')]\<rparr>)
         \<and> new_invocations s (snd (main env s)) = [search_command]"
proof -
  have m: "main env s
      = (Inr (), s1\<lparr>logged := logged s1 @ [(WARNING, ''No pull requests found'')]\<rparr>)"
    using assms by (simp add: main_def logging_def)
  have "invoked s1 = invoked s @ [search_command]"
    using invoked_fetch [of env s] assms(1) by simp
  then show ?thesis using m by (simp add: new_invocations_def)
qed

subsection \<open>The loop over the records\<close>








text \<open>
  Claim C6 says that a failure of the approve or of the merge invocation for one record
  never keeps the loop from the next record. Here two records match the keyword, and the
  approve invocation for the first returns 1 with an error output that is not valid
  UTF-8. The step raises \<^verbatim>\<open>UnicodeDecodeError\<close> while it builds its log message, the
  loop ends with it, and no command is run for the second record. With an error output
  that decodes, the same run logs the failure and goes on to approve and merge the
  second record.
\<close>

theorem loop_aborts_on_undecodable_stderr:
  "main script_env
     (start ([(0, Text [], Text []), (1, Text [], Undecodable)],
             Inr (PList [mk_record ''YOURFAVOURITEKEYWORD one'' ''u1'',
                         mk_record ''YOURFAVOURITEKEYWORD two'' ''u2''])))
   = (Inl UnicodeDecodeError,
      \<lparr>world = ([], Inr (PList [mk_record ''YOURFAVOURITEKEYWORD one'' ''u1'',
                                 mk_record ''YOURFAVOURITEKEYWORD two'' ''u2''])),
       invoked = [search_command, approve_command (PStr ''u1'')], logged = []\<rparr>)
   \<and> main script_env
     (start ([(0, Text [], Text []), (1, Text [], Text ''denied'')],
             Inr (PList [mk_record ''YOURFAVOURITEKEYWORD one'' ''u1'',
                         mk_record ''YOURFAVOURITEKEYWORD two'' ''u2''])))
   = (Inr (),
      \<lparr>world = ([], Inr (PList [mk_record ''YOURFAVOURITEKEYWORD one'' ''u1'',
                                 mk_record ''YOURFAVOURITEKEYWORD two'' ''u2''])),
       invoked = [search_command, approve_command (PStr ''u1''),
                  approve_command (PStr ''u2''), merge_command (PStr ''u2'')],
       logged = [(ERROR, ''Failed to approve PR u1: denied''),
                 (INFO, ''Successfully approved PR: u2''),
                 (INFO, ''Successfully merged PR: u2'')]\<rparr>)"
  by code_simp

subsection \<open>The whole run\<close>




end
